theory Spec2Isabelle
  imports Main "HOL-Library.Sublist"
begin

section \<open>JavaScript values and operations the source relies on\<close>

text \<open>
  Every throw of the source and every property read on \<open>undefined\<close> or \<open>null\<close> is a value
  of \<open>error\<close>; a function that can throw returns \<open>error + 'a\<close>, with \<open>Inl\<close> the error.
  \<open>Error\<close> is \<^verbatim>\<open>throw new Error(message)\<close>. \<open>TypeError\<close> is what the engine raises when
  a property is read from \<open>undefined\<close> or \<open>null\<close>, or when a value that is not a function is
  called; its argument names the property or the callee. \<open>InvalidOperationError\<close> is what the
  front end's \<^verbatim>\<open>getPropertyOrThrow\<close> raises for a property that is not there.

  A JavaScript value that may be \<open>undefined\<close> is an \<open>option\<close>, \<open>None\<close> being \<open>undefined\<close>.
\<close>

datatype error =
    Error string
  | TypeError string
  | InvalidOperationError string

text \<open>\<^verbatim>\<open>xs[i]\<close>: reading past the end of an array gives \<open>undefined\<close>.\<close>

definition js_index :: "'a list \<Rightarrow> nat \<Rightarrow> 'a option" where
  "js_index xs i = (if i < length xs then Some (xs ! i) else None)"

text \<open>A string-typed value inside a template literal: \<open>undefined\<close> prints as its name.\<close>

definition js_template :: "string option \<Rightarrow> string" where
  "js_template v = (case v of None \<Rightarrow> ''undefined'' | Some s \<Rightarrow> s)"

text \<open>\<^verbatim>\<open>s.split(sep)\<close> for a one-character separator: \<open>n\<close> separators give \<open>n + 1\<close> pieces,
  empty ones included.\<close>

fun js_split :: "char \<Rightarrow> string \<Rightarrow> string list" where
  "js_split sep [] = [[]]"
| "js_split sep (c # cs) =
     (if c = sep then [] # js_split sep cs
      else (case js_split sep cs of
              [] \<Rightarrow> [[c]]
            | piece # pieces \<Rightarrow> (c # piece) # pieces))"

text \<open>\<^verbatim>\<open>xs.join(sep)\<close>.\<close>

fun js_join :: "string \<Rightarrow> string list \<Rightarrow> string" where
  "js_join sep [] = []"
| "js_join sep [x] = x"
| "js_join sep (x # y # ys) = x @ sep @ js_join sep (y # ys)"

text \<open>\<^verbatim>\<open>s.replace(/'/g, '')\<close>: every single quote is removed.\<close>

definition stripQuotes :: "string \<Rightarrow> string" where
  "stripQuotes s = filter (\<lambda>c. c \<noteq> CHR 0x27) s"

text \<open>\<^verbatim>\<open>xs.map(f)\<close> with a callback that may throw: the first throw ends the map.\<close>

fun mapE :: "('a \<Rightarrow> error + 'b) \<Rightarrow> 'a list \<Rightarrow> error + 'b list" where
  "mapE f [] = Inr []"
| "mapE f (x # xs) =
     (case f x of
        Inl e \<Rightarrow> Inl e
      | Inr y \<Rightarrow> (case mapE f xs of Inl e \<Rightarrow> Inl e | Inr ys \<Rightarrow> Inr (y # ys)))"

text \<open>
  The names every object inherits from \<open>Object.prototype\<close>. The operator \<^verbatim>\<open>in\<close> and a
  property read both follow the prototype chain, so they see these names on an object
  literal too.
\<close>

definition ObjectPrototype_names :: "string list" where
  "ObjectPrototype_names =
     [''constructor'', ''__defineGetter__'', ''__defineSetter__'', ''hasOwnProperty'',
      ''__lookupGetter__'', ''__lookupSetter__'', ''isPrototypeOf'',
      ''propertyIsEnumerable'', ''toString'', ''valueOf'', ''__proto__'',
      ''toLocaleString'']"

section \<open>The declaration tree of the front end (ts-morph), as far as the source reads it\<close>

text \<open>
  A \<open>Type\<close> answers \<^verbatim>\<open>getText()\<close>, \<^verbatim>\<open>getTypeArguments()\<close> and \<^verbatim>\<open>isVoid()\<close>; its last field
  lists its properties, each with what \<^verbatim>\<open>getDeclaredType()\<close> of the property's symbol gives.
\<close>

datatype Type =
  TypeObject (getText: string) (getTypeArguments: "Type list") (isVoid: bool)
             (getProperties: "(string \<times> Type) list")

text \<open>The class of \<open>Type\<close> declares no \<^verbatim>\<open>toString\<close>: inside a template literal a type object
  prints as any plain object does.\<close>

definition Type_toString :: "Type \<Rightarrow> string" where
  "Type_toString t = ''[object Object]''"

text \<open>
  \<^verbatim>\<open>type.getPropertyOrThrow(name)\<close> followed by \<^verbatim>\<open>getDeclaredType()\<close>. The front end
  compares names when the argument is a string and otherwise hands the argument to
  \<^verbatim>\<open>Array.prototype.find\<close> as the predicate, which throws for \<open>undefined\<close>.
\<close>

definition getPropertyOrThrow :: "Type \<Rightarrow> string option \<Rightarrow> error + Type" where
  "getPropertyOrThrow t nameOrFindFunction =
     (case nameOrFindFunction of
        None \<Rightarrow> Inl (TypeError ''find'')
      | Some n \<Rightarrow>
          (case map_of (getProperties t) n of
             None \<Rightarrow> Inl (InvalidOperationError n)
           | Some declared \<Rightarrow> Inr declared))"

text \<open>
  Each node of the tree is the record of what its getters answer. A decorator has
  \<^verbatim>\<open>getName()\<close>, the source text \<^verbatim>\<open>compilerNode.getText()\<close> of each element of
  \<^verbatim>\<open>getArguments()\<close>, and \<^verbatim>\<open>getType()\<close>, the type of the decorator node itself. A parameter
  has \<^verbatim>\<open>getName()\<close>, \<^verbatim>\<open>getDecorators()\<close> and \<^verbatim>\<open>getType()\<close>, its declared type. A method has
  \<^verbatim>\<open>getName()\<close>, \<^verbatim>\<open>getDecorators()\<close>, \<^verbatim>\<open>getParameters()\<close>, \<^verbatim>\<open>getType()\<close> and
  \<^verbatim>\<open>getReturnType()\<close>. For a method node \<^verbatim>\<open>getType()\<close> is the type of the node, that is of
  the method's signature, with a text such as \<^verbatim>\<open>(id: number) => Promise<User>\<close>; the declared
  return type is what \<^verbatim>\<open>getReturnType()\<close> answers, and the extractor never reads it.
\<close>

record Decorator =
  dec_name :: string
  dec_arguments :: "string list"
  dec_type :: Type

record ParameterDeclaration =
  par_name :: string
  par_decorators :: "Decorator list"
  par_type :: Type

record MethodDeclaration =
  met_name :: string
  met_decorators :: "Decorator list"
  met_parameters :: "ParameterDeclaration list"
  met_type :: Type
  met_returnType :: Type

text \<open>
  The type of a signature is not void, and its text starts with the opening parenthesis of
  the parameter list, or with the angle bracket of the type parameters of a generic method.
\<close>

definition isSignatureType :: "Type \<Rightarrow> bool" where
  "isSignatureType t =
     (\<not> isVoid t \<and>
      (case getText t of
         [] \<Rightarrow> False
       | c # cs \<Rightarrow> c = CHR ''('' \<or> c = CHR ''<''))"

text \<open>\<^verbatim>\<open>ClassDeclaration.getName()\<close> is \<open>undefined\<close> for an anonymous class.\<close>

record ClassDeclaration =
  cls_name :: "string option"
  cls_decorators :: "Decorator list"
  cls_methods :: "MethodDeclaration list"

record SourceFile =
  sf_baseName :: string
  sf_classes :: "ClassDeclaration list"

text \<open>\<^verbatim>\<open>node.getDecorator(name)\<close>: the first decorator of that name.\<close>

definition getDecorator :: "string \<Rightarrow> Decorator list \<Rightarrow> Decorator option" where
  "getDecorator n ds = find (\<lambda>d. dec_name d = n) ds"

section \<open>The metadata (http.metadata.ts)\<close>

datatype HttpMethod = GET | POST | PUT | DELETE | PATCH

text \<open>
  What a read of the decorator table yields: an entry of the table, a member inherited from
  \<open>Object.prototype\<close>, or \<open>undefined\<close>. The interface declares the field \<open>method\<close> as an
  \<open>HttpMethod\<close>; the extractor stores whatever the read returned.
\<close>

datatype PropertyValue = Verb HttpMethod | ObjectPrototypeMember string | Undefined

text \<open>
  \<open>parameterName\<close> is declared a string; the extractor fills it from index 1 of a match
  array, so it can be \<open>undefined\<close>.
\<close>

record PathParameter =
  pp_parameterName :: "string option"
  pp_parameterType :: Type

text \<open>An element of \<open>path\<close>, of type \<^verbatim>\<open>string | PathParameter\<close>.\<close>

datatype PathSegment = Literal string | Parameter PathParameter

text \<open>The type of a request body is declared a \<open>Type\<close>; the extractor can store
  \<open>undefined\<close> there (the first element of an empty list of type arguments).\<close>

record RequestBody =
  rb_name :: string
  rb_type :: "Type option"

record ResponseBody =
  resp_type :: Type

record QueryParameters =
  qp_name :: string
  qp_type :: Type

record HttpMethodMetaData =
  hm_name :: string
  hm_path :: "PathSegment list"
  hm_method :: PropertyValue
  hm_requestBody :: "RequestBody option"
  hm_responseBody :: "ResponseBody option"
  hm_queryParameters :: "QueryParameters option"

record HttpClassMetaData =
  hc_baseName :: string
  hc_methods :: "HttpMethodMetaData list"

text \<open>\<open>fileBaseName\<close> is declared a string; the extractor fills it from index 1 of a match
  array.\<close>

record HttpFileMetaData =
  hf_apiName :: string
  hf_fileBaseName :: "string option"
  hf_classes :: "HttpClassMetaData list"

section \<open>The extractor (NestControllerExtractor)\<close>

definition httpMethodByDecoratorName :: "(string \<times> HttpMethod) list" where
  "httpMethodByDecoratorName =
     [(''Get'', GET), (''Post'', POST), (''Put'', PUT), (''Delete'', DELETE),
      (''Patch'', PATCH)]"

text \<open>\<^verbatim>\<open>key in obj\<close> for an object literal \<open>obj\<close>: an own key, or a name inherited from
  \<open>Object.prototype\<close>.\<close>

definition js_in :: "string \<Rightarrow> (string \<times> 'v) list \<Rightarrow> bool" where
  "js_in key obj = (key \<in> set (map fst obj) \<or> key \<in> set ObjectPrototype_names)"

text \<open>\<^verbatim>\<open>obj[key]\<close> for the decorator table: the own entry, else the inherited member, else
  \<open>undefined\<close>.\<close>

definition js_get :: "(string \<times> HttpMethod) list \<Rightarrow> string \<Rightarrow> PropertyValue" where
  "js_get obj key =
     (case map_of obj key of
        Some v \<Rightarrow> Verb v
      | None \<Rightarrow> if key \<in> set ObjectPrototype_names then ObjectPrototypeMember key
                else Undefined)"

definition isControllerClass :: "ClassDeclaration \<Rightarrow> bool" where
  "isControllerClass classDeclaration =
     (getDecorator ''Controller'' (cls_decorators classDeclaration) \<noteq> None)"

definition isControllerFile :: "SourceFile \<Rightarrow> bool" where
  "isControllerFile sourceFile = list_ex isControllerClass (sf_classes sourceFile)"

text \<open>
  \<^verbatim>\<open>/([^/]+)\.controller\.ts$/.exec(s)\<close>: the match array (the whole match, then group 1)
  or \<open>null\<close>. The pattern matches when \<open>s\<close> ends in \<^verbatim>\<open>.controller.ts\<close> and the
  character before that suffix exists and is not a slash; group 1 is then the longest
  slash-free stretch that ends where the suffix starts.
\<close>

definition fileBaseName_exec :: "string \<Rightarrow> string list option" where
  "fileBaseName_exec s =
     (if suffix ''.controller.ts'' s
      then (let stem = take (length s - length ''.controller.ts'') s;
                group1 = rev (takeWhile (\<lambda>c. c \<noteq> CHR ''/'') (rev stem))
            in if group1 = [] then None
               else Some [group1 @ ''.controller.ts'', group1])
      else None)"

text \<open>The match is asserted non-null and indexed: on \<open>null\<close> the read of index 1 throws.\<close>

definition extractFileBaseName :: "SourceFile \<Rightarrow> error + string option" where
  "extractFileBaseName sourceFile =
     (case fileBaseName_exec (sf_baseName sourceFile) of
        None \<Rightarrow> Inl (TypeError ''1'')
      | Some match \<Rightarrow> Inr (js_index match 1))"

definition extractApiName :: "SourceFile \<Rightarrow> string" where
  "extractApiName sourceFile = ''wip''"

definition extractPathOfDecorator :: "Decorator \<Rightarrow> string" where
  "extractPathOfDecorator decorator =
     (case js_index (dec_arguments decorator) 0 of
        None \<Rightarrow> []
      | Some firstArgument \<Rightarrow> stripQuotes firstArgument)"

definition extractBasePathFromClassDeclaration :: "ClassDeclaration \<Rightarrow> error + string" where
  "extractBasePathFromClassDeclaration classDeclaration =
     (case getDecorator ''Controller'' (cls_decorators classDeclaration) of
        None \<Rightarrow> Inl (TypeError ''getArguments'')
      | Some decorator \<Rightarrow> Inr (extractPathOfDecorator decorator))"

definition getHttpMethodDecorator :: "MethodDeclaration \<Rightarrow> Decorator option" where
  "getHttpMethodDecorator method =
     find (\<lambda>d. js_in (dec_name d) httpMethodByDecoratorName) (met_decorators method)"

definition isHttpMethod :: "MethodDeclaration \<Rightarrow> bool" where
  "isHttpMethod method = (getHttpMethodDecorator method \<noteq> None)"

text \<open>
  \<^verbatim>\<open>/^:[^(]+/.exec(p)\<close>: the match array or \<open>null\<close>. The pattern has no capture group, so
  the array holds the whole match only: the colon and every character up to the first
  opening parenthesis, at least one.
\<close>

definition pathParameter_exec :: "string \<Rightarrow> string list option" where
  "pathParameter_exec p =
     (case p of
        c1 # c2 # cs \<Rightarrow>
          if c1 = CHR '':'' \<and> c2 \<noteq> CHR ''(''
          then Some [c1 # takeWhile (\<lambda>c. c \<noteq> CHR ''('') (c2 # cs)]
          else None
      | _ \<Rightarrow> None)"

text \<open>The loop over the method's parameters; the method's name is only used in the
  message of the final throw.\<close>

fun extractPathParameterType_loop ::
  "string \<Rightarrow> ParameterDeclaration list \<Rightarrow> string option \<Rightarrow> error + Type" where
  "extractPathParameterType_loop methodName [] parameterName =
     Inl (Error (''No parameter with name '' @ js_template parameterName @
                 '' found in method '' @ methodName))"
| "extractPathParameterType_loop methodName (parameter # rest) parameterName =
     (case getDecorator ''Param'' (par_decorators parameter) of
        Some parameterDecorator \<Rightarrow>
          (case js_index (dec_arguments parameterDecorator) 0 of
             None \<Rightarrow> Inl (TypeError ''compilerNode'')
           | Some argumentText \<Rightarrow>
               if Some (stripQuotes argumentText) = parameterName
               then Inr (par_type parameter)
               else extractPathParameterType_loop methodName rest parameterName)
      | None \<Rightarrow>
          (case getDecorator ''Params'' (par_decorators parameter) of
             Some parametersDecorator \<Rightarrow>
               getPropertyOrThrow (dec_type parametersDecorator) parameterName
           | None \<Rightarrow> extractPathParameterType_loop methodName rest parameterName))"

definition extractPathParameterType ::
  "MethodDeclaration \<Rightarrow> string option \<Rightarrow> error + Type" where
  "extractPathParameterType method parameterName =
     extractPathParameterType_loop (met_name method) (met_parameters method) parameterName"

text \<open>The callback of the map in \<open>parsePath\<close>.\<close>

definition parsePathSegment :: "MethodDeclaration \<Rightarrow> string \<Rightarrow> error + PathSegment" where
  "parsePathSegment method p =
     (case pathParameter_exec p of
        Some parameterParser \<Rightarrow>
          (let parameterName = js_index parameterParser 1
           in case extractPathParameterType method parameterName of
                Inl e \<Rightarrow> Inl e
              | Inr parameterType \<Rightarrow>
                  Inr (Parameter \<lparr>pp_parameterName = parameterName,
                                  pp_parameterType = parameterType\<rparr>))
      | None \<Rightarrow> Inr (Literal p))"

definition parsePath ::
  "string \<Rightarrow> Decorator \<Rightarrow> MethodDeclaration \<Rightarrow> error + PathSegment list" where
  "parsePath basePath decorator method =
     mapE (parsePathSegment method)
          (js_split (CHR ''/'') (basePath @ extractPathOfDecorator decorator))"

definition isPromiseType :: "Type \<Rightarrow> bool" where
  "isPromiseType t = prefix ''Promise<'' (getText t)"

definition extractRequestBody :: "MethodDeclaration \<Rightarrow> RequestBody option" where
  "extractRequestBody method =
     (case find (\<lambda>p. getDecorator ''Body'' (par_decorators p) \<noteq> None)
                (met_parameters method) of
        None \<Rightarrow> None
      | Some bodyParameter \<Rightarrow>
          Some \<lparr>rb_name = par_name bodyParameter,
                rb_type = (if isPromiseType (par_type bodyParameter)
                           then js_index (getTypeArguments (par_type bodyParameter)) 0
                           else Some (par_type bodyParameter))\<rparr>)"

text \<open>\<^verbatim>\<open>responseType.isVoid()\<close> throws when the first type argument was \<open>undefined\<close>.\<close>

definition extractResponseBody :: "MethodDeclaration \<Rightarrow> error + ResponseBody option" where
  "extractResponseBody method =
     (let responseType = (if isPromiseType (met_type method)
                          then js_index (getTypeArguments (met_type method)) 0
                          else Some (met_type method))
      in case responseType of
           None \<Rightarrow> Inl (TypeError ''isVoid'')
         | Some t \<Rightarrow> if isVoid t then Inr None else Inr (Some \<lparr>resp_type = t\<rparr>))"

definition extractQueryParametersType :: "MethodDeclaration \<Rightarrow> QueryParameters option" where
  "extractQueryParametersType method =
     (case find (\<lambda>p. getDecorator ''QueryParams'' (par_decorators p) \<noteq> None)
                (met_parameters method) of
        None \<Rightarrow> None
      | Some queryParametersParameter \<Rightarrow>
          Some \<lparr>qp_name = par_name queryParametersParameter,
                qp_type = par_type queryParametersParameter\<rparr>)"

text \<open>The fields of the object literal are evaluated in the order written: the path
  first, the response body after it.\<close>

definition extractHttpMethodMetaData ::
  "string \<Rightarrow> MethodDeclaration \<Rightarrow> error + HttpMethodMetaData" where
  "extractHttpMethodMetaData basePath method =
     (case getHttpMethodDecorator method of
        None \<Rightarrow> Inl (TypeError ''getArguments'')
      | Some decorator \<Rightarrow>
          (case parsePath basePath decorator method of
             Inl e \<Rightarrow> Inl e
           | Inr segments \<Rightarrow>
               (case extractResponseBody method of
                  Inl e \<Rightarrow> Inl e
                | Inr response \<Rightarrow>
                    Inr \<lparr>hm_name = met_name method,
                         hm_path = segments,
                         hm_method = js_get httpMethodByDecoratorName (dec_name decorator),
                         hm_requestBody = extractRequestBody method,
                         hm_responseBody = response,
                         hm_queryParameters = extractQueryParametersType method\<rparr>)))"

definition extractHttpMethodMetaDataFromClassDeclaration ::
  "string \<Rightarrow> ClassDeclaration \<Rightarrow> error + HttpMethodMetaData list" where
  "extractHttpMethodMetaDataFromClassDeclaration basePath classDeclaration =
     mapE (extractHttpMethodMetaData basePath)
          (filter isHttpMethod (cls_methods classDeclaration))"

text \<open>\<^verbatim>\<open>name.replace(/Controller$/, '')\<close>.\<close>

definition stripControllerSuffix :: "string \<Rightarrow> string" where
  "stripControllerSuffix n =
     (if suffix ''Controller'' n then take (length n - length ''Controller'') n else n)"

definition extractHttpClassMetaDataFromClassDeclaration ::
  "ClassDeclaration \<Rightarrow> error + HttpClassMetaData" where
  "extractHttpClassMetaDataFromClassDeclaration classDeclaration =
     (case extractBasePathFromClassDeclaration classDeclaration of
        Inl e \<Rightarrow> Inl e
      | Inr basePath \<Rightarrow>
          (case extractHttpMethodMetaDataFromClassDeclaration basePath classDeclaration of
             Inl e \<Rightarrow> Inl e
           | Inr extracted \<Rightarrow>
               (case cls_name classDeclaration of
                  None \<Rightarrow> Inl (TypeError ''replace'')
                | Some n \<Rightarrow>
                    Inr \<lparr>hc_baseName = stripControllerSuffix n,
                         hc_methods = extracted\<rparr>)))"

definition extractHttpClassMetaData :: "SourceFile \<Rightarrow> error + HttpClassMetaData list" where
  "extractHttpClassMetaData sourceFile =
     mapE extractHttpClassMetaDataFromClassDeclaration
          (filter isControllerClass (sf_classes sourceFile))"

definition extractHttpFileMetadata :: "SourceFile \<Rightarrow> error + HttpFileMetaData" where
  "extractHttpFileMetadata sourceFile =
     (case extractFileBaseName sourceFile of
        Inl e \<Rightarrow> Inl e
      | Inr baseName \<Rightarrow>
          (case extractHttpClassMetaData sourceFile of
             Inl e \<Rightarrow> Inl e
           | Inr extracted \<Rightarrow>
               Inr \<lparr>hf_apiName = extractApiName sourceFile,
                    hf_fileBaseName = baseName,
                    hf_classes = extracted\<rparr>))"

text \<open>The project is its list of source files: all are filtered, then the qualifying
  ones are extracted in order.\<close>

definition extractHttpFilesMetadata :: "SourceFile list \<Rightarrow> error + HttpFileMetaData list" where
  "extractHttpFilesMetadata nestProject =
     mapE extractHttpFileMetadata (filter isControllerFile nestProject)"

section \<open>The generator (ClientGenerator)\<close>

text \<open>The structures handed to the front end's \<^verbatim>\<open>addClass\<close> and \<^verbatim>\<open>addMethod\<close>; the
  statements of a method are the lines its writer callback writes.\<close>

datatype StructureKind = StructureKind_Parameter

datatype Scope = Public | Protected | Private

record ParameterDeclarationStructure =
  ps_kind :: StructureKind
  ps_name :: "string option"
  ps_type :: string

record MethodDeclarationStructure =
  ms_name :: string
  ms_returnType :: string
  ms_parameters :: "ParameterDeclarationStructure list"
  ms_isAsync :: bool
  ms_scope :: Scope
  ms_statements :: "string list"

record ClassDeclarationStructure =
  cs_name :: string
  cs_isExported :: bool
  cs_methods :: "MethodDeclarationStructure list"

text \<open>The value of the field \<open>method\<close> inside a template literal.\<close>

fun HttpMethod_text :: "HttpMethod \<Rightarrow> string" where
  "HttpMethod_text GET = ''GET''"
| "HttpMethod_text POST = ''POST''"
| "HttpMethod_text PUT = ''PUT''"
| "HttpMethod_text DELETE = ''DELETE''"
| "HttpMethod_text PATCH = ''PATCH''"

fun PropertyValue_text :: "PropertyValue \<Rightarrow> string" where
  "PropertyValue_text (Verb v) = HttpMethod_text v"
| "PropertyValue_text (ObjectPrototypeMember n) =
     (if n = ''__proto__'' then ''[object Object]''
      else if n = ''constructor'' then ''function Object() { [native code] }''
      else ''function '' @ n @ ''() { [native code] }'')"
| "PropertyValue_text Undefined = ''undefined''"

text \<open>The loop over \<open>path\<close> that pushes one parameter per path parameter and skips the
  strings.\<close>

fun pathParameters_loop ::
  "PathSegment list \<Rightarrow> ParameterDeclarationStructure list
   \<Rightarrow> ParameterDeclarationStructure list" where
  "pathParameters_loop [] parameters = parameters"
| "pathParameters_loop (Literal s # rest) parameters = pathParameters_loop rest parameters"
| "pathParameters_loop (Parameter pathParameter # rest) parameters =
     pathParameters_loop rest
       (parameters @ [\<lparr>ps_kind = StructureKind_Parameter,
                        ps_name = pp_parameterName pathParameter,
                        ps_type = getText (pp_parameterType pathParameter)\<rparr>])"

text \<open>\<^verbatim>\<open>requestBody.type.getText()\<close> throws when the stored type is \<open>undefined\<close>.\<close>

definition generateHttpMethodParameters ::
  "HttpMethodMetaData \<Rightarrow> PathSegment list
   \<Rightarrow> error + ParameterDeclarationStructure list" where
  "generateHttpMethodParameters httpMethodMetaData segments =
     (let parameters = pathParameters_loop segments []
      in case (case hm_requestBody httpMethodMetaData of
                 None \<Rightarrow> Inr parameters
               | Some requestBody \<Rightarrow>
                   (case rb_type requestBody of
                      None \<Rightarrow> Inl (TypeError ''getText'')
                    | Some t \<Rightarrow>
                        Inr (parameters @ [\<lparr>ps_kind = StructureKind_Parameter,
                                             ps_name = Some (rb_name requestBody),
                                             ps_type = getText t\<rparr>]))) of
           Inl e \<Rightarrow> Inl e
         | Inr withBody \<Rightarrow>
             (let withQuery =
                    (case hm_queryParameters httpMethodMetaData of
                       None \<Rightarrow> withBody
                     | Some queryParameters \<Rightarrow>
                         withBody @ [\<lparr>ps_kind = StructureKind_Parameter,
                                       ps_name = Some (qp_name queryParameters),
                                       ps_type = getText (qp_type queryParameters)\<rparr>])
              in Inr (withQuery @ [\<lparr>ps_kind = StructureKind_Parameter,
                                      ps_name = Some ''options'',
                                      ps_type = ''RequestOptions''\<rparr>])))"

text \<open>One element of \<open>path\<close> inside the template of the URL.\<close>

fun urlPiece :: "PathSegment \<Rightarrow> string" where
  "urlPiece (Literal p) = p"
| "urlPiece (Parameter p) = ''${'' @ js_template (pp_parameterName p) @ ''}''"

definition methodStatements :: "HttpMethodMetaData \<Rightarrow> string list" where
  "methodStatements httpMethodMetaData =
     [''const url = `'' @ js_join ''/'' (map urlPiece (hm_path httpMethodMetaData)) @ ''`;'',
      ''return http.request({'',
      ''  ...options,'',
      ''  url,'',
      ''  method: '' @ [CHR 0x27] @ PropertyValue_text (hm_method httpMethodMetaData) @
        [CHR 0x27] @ '',''] @
     (case hm_requestBody httpMethodMetaData of
        None \<Rightarrow> []
      | Some requestBody \<Rightarrow> [''  body: '' @ rb_name requestBody @ '','']) @
     (case hm_queryParameters httpMethodMetaData of
        None \<Rightarrow> []
      | Some queryParameters \<Rightarrow> [''  queryParams: '' @ qp_name queryParameters @ '','']) @
     [''});'']"

text \<open>The method structure added to the client class. The return type interpolates the
  type object itself, where the parameters interpolate its text.\<close>

definition generateClientMethod ::
  "HttpMethodMetaData \<Rightarrow> error + MethodDeclarationStructure" where
  "generateClientMethod httpMethodMetaData =
     (case generateHttpMethodParameters httpMethodMetaData (hm_path httpMethodMetaData) of
        Inl e \<Rightarrow> Inl e
      | Inr parameters \<Rightarrow>
          Inr \<lparr>ms_name = hm_name httpMethodMetaData,
               ms_returnType =
                 ''Promise<'' @
                 (case hm_responseBody httpMethodMetaData of
                    None \<Rightarrow> ''void''
                  | Some responseBody \<Rightarrow> Type_toString (resp_type responseBody)) @ ''>'',
               ms_parameters = parameters,
               ms_isAsync = True,
               ms_scope = Public,
               ms_statements = methodStatements httpMethodMetaData\<rparr>)"

definition generateClientClass :: "HttpClassMetaData \<Rightarrow> error + ClassDeclarationStructure" where
  "generateClientClass httpClassMetaData =
     (case mapE generateClientMethod (hc_methods httpClassMetaData) of
        Inl e \<Rightarrow> Inl e
      | Inr generated \<Rightarrow>
          Inr \<lparr>cs_name = hc_baseName httpClassMetaData @ ''Client'',
               cs_isExported = True,
               cs_methods = generated\<rparr>)"

definition generateClientFile :: "HttpFileMetaData \<Rightarrow> error + ClassDeclarationStructure list" where
  "generateClientFile httpFileMetaData =
     mapE generateClientClass (hf_classes httpFileMetaData)"

section \<open>Notions used to state the properties\<close>

text \<open>The interface declares the type of a request body as a \<open>Type\<close>: metadata that
  respects the declaration never holds \<open>undefined\<close> there.\<close>

definition requestBodyTyped :: "HttpMethodMetaData \<Rightarrow> bool" where
  "requestBodyTyped httpMethodMetaData =
     (case hm_requestBody httpMethodMetaData of
        None \<Rightarrow> True
      | Some requestBody \<Rightarrow> rb_type requestBody \<noteq> None)"

text \<open>The source text of a single-quoted string literal, as a decorator argument.\<close>

definition singleQuoted :: "string \<Rightarrow> string" where
  "singleQuoted s = CHR 0x27 # s @ [CHR 0x27]"

text \<open>
  In the spec's words an asynchronous-result wrapper is a single-type-argument container
  that completes later with the carried type: a type with exactly one type argument whose
  text is \<^verbatim>\<open>Promise<\<close>, the text of that argument and \<^verbatim>\<open>>\<close>.
\<close>

definition spec_isAsyncWrapper :: "Type \<Rightarrow> bool" where
  "spec_isAsyncWrapper t =
     (case getTypeArguments t of
        [carried] \<Rightarrow> getText t = ''Promise<'' @ getText carried @ ''>''
      | _ \<Rightarrow> False)"

text \<open>
  In the spec's words an annotation argument can or cannot be read as a literal: its source
  text is that of a string literal when it is enclosed in a pair of equal quote marks
  (single, double or backquote).
\<close>

definition spec_stringLiteralText :: "string \<Rightarrow> bool" where
  "spec_stringLiteralText argumentText =
     (case argumentText of
        [] \<Rightarrow> False
      | opening # rest \<Rightarrow>
          rest \<noteq> [] \<and> last rest = opening \<and>
          opening \<in> set [CHR 0x27, CHR 0x22, CHR 0x60])"

section \<open>Splitting, joining and mapping\<close>

lemma js_split_not_Nil: "js_split sep s \<noteq> []"
  by (induction s) (auto split: list.splits)

lemma length_js_split: "length (js_split sep s) = Suc (count_list s sep)"
  by (induction s) (auto split: list.splits simp: js_split_not_Nil)

lemma js_join_Cons: "ps \<noteq> [] \<Longrightarrow> js_join sep (p # ps) = p @ sep @ js_join sep ps"
  by (cases ps) auto

lemma js_join_js_split: "js_join [sep] (js_split sep s) = s"
proof (induction s)
  case Nil
  show ?case by simp
next
  case (Cons c cs)
  show ?case
  proof (cases "c = sep")
    case True
    with Cons show ?thesis by (simp add: js_join_Cons js_split_not_Nil)
  next
    case False
    obtain p ps where ps: "js_split sep cs = p # ps"
      using js_split_not_Nil [of sep cs] by (cases "js_split sep cs") auto
    with Cons False show ?thesis by (cases ps) auto
  qed
qed

lemma js_split_pieces_free: "piece \<in> set (js_split sep s) \<Longrightarrow> sep \<notin> set piece"
  by (induction s arbitrary: piece) (auto split: list.splits if_splits)

lemma mapE_Inr_list_all2: "mapE f xs = Inr ys \<Longrightarrow> list_all2 (\<lambda>x y. f x = Inr y) xs ys"
  by (induction xs arbitrary: ys) (auto split: sum.splits)

lemma mapE_Inl_member: "x \<in> set xs \<Longrightarrow> f x = Inl e \<Longrightarrow> \<exists>e'. mapE f xs = Inl e'"
  by (induction xs) (auto split: sum.splits)

lemma mapE_all_Inr: "(\<And>x. x \<in> set xs \<Longrightarrow> f x = Inr (g x)) \<Longrightarrow> mapE f xs = Inr (map g xs)"
  by (induction xs) auto

lemma pathParameters_loop_append:
  "pathParameters_loop segments acc =
     acc @ concat (map (\<lambda>s. case s of
                                Literal p \<Rightarrow> []
                              | Parameter p \<Rightarrow>
                                  [\<lparr>ps_kind = StructureKind_Parameter,
                                    ps_name = pp_parameterName p,
                                    ps_type = getText (pp_parameterType p)\<rparr>]) segments)"
  by (induction segments acc rule: pathParameters_loop.induct) auto

section \<open>The order of the generated parameters\<close>

lemma generateHttpMethodParameters_untyped_body:
  "\<not> requestBodyTyped md \<Longrightarrow>
     generateHttpMethodParameters md segments = Inl (TypeError ''getText'')"
  by (auto simp: generateHttpMethodParameters_def requestBodyTyped_def split: option.splits)

text \<open>
  Claim C2. For every route, the parameter list of the generated client method is, in this
  order: one parameter per \<open>Parameter\<close> segment of the path, in path order, named after
  the path parameter and typed with the text of its type; then the request-body parameter
  if the route has a request body; then the query-parameters parameter if the route has
  query parameters; then always a last parameter \<open>options\<close> of type \<open>RequestOptions\<close>.
  The route is metadata as the interface declares it (the type of a request body is a
  type), and the method is generated under the route's name.
\<close>

theorem C2_parameter_order:
  assumes "requestBodyTyped md"
  shows "let expected =
               concat (map (\<lambda>s. case s of
                                   Literal p \<Rightarrow> []
                                 | Parameter p \<Rightarrow>
                                     [\<lparr>ps_kind = StructureKind_Parameter,
                                       ps_name = pp_parameterName p,
                                       ps_type = getText (pp_parameterType p)\<rparr>])
                           (hm_path md)) @
               (case hm_requestBody md of
                  None \<Rightarrow> []
                | Some requestBody \<Rightarrow>
                    (case rb_type requestBody of
                       None \<Rightarrow> []
                     | Some t \<Rightarrow> [\<lparr>ps_kind = StructureKind_Parameter,
                                   ps_name = Some (rb_name requestBody),
                                   ps_type = getText t\<rparr>])) @
               (case hm_queryParameters md of
                  None \<Rightarrow> []
                | Some queryParameters \<Rightarrow>
                    [\<lparr>ps_kind = StructureKind_Parameter,
                      ps_name = Some (qp_name queryParameters),
                      ps_type = getText (qp_type queryParameters)\<rparr>]) @
               [\<lparr>ps_kind = StructureKind_Parameter,
                 ps_name = Some ''options'',
                 ps_type = ''RequestOptions''\<rparr>]
         in generateHttpMethodParameters md (hm_path md) = Inr expected \<and>
            (\<exists>generated. generateClientMethod md = Inr generated \<and>
                         ms_name generated = hm_name md \<and>
                         ms_parameters generated = expected)"
proof -
  have params: "generateHttpMethodParameters md (hm_path md) = Inr
     (concat (map (\<lambda>s. case s of
                                   Literal p \<Rightarrow> []
                                 | Parameter p \<Rightarrow>
                                     [\<lparr>ps_kind = StructureKind_Parameter,
                                       ps_name = pp_parameterName p,
                                       ps_type = getText (pp_parameterType p)\<rparr>])
                           (hm_path md)) @
               (case hm_requestBody md of
                  None \<Rightarrow> []
                | Some requestBody \<Rightarrow>
                    (case rb_type requestBody of
                       None \<Rightarrow> []
                     | Some t \<Rightarrow> [\<lparr>ps_kind = StructureKind_Parameter,
                                   ps_name = Some (rb_name requestBody),
                                   ps_type = getText t\<rparr>])) @
               (case hm_queryParameters md of
                  None \<Rightarrow> []
                | Some queryParameters \<Rightarrow>
                    [\<lparr>ps_kind = StructureKind_Parameter,
                      ps_name = Some (qp_name queryParameters),
                      ps_type = getText (qp_type queryParameters)\<rparr>]) @
               [\<lparr>ps_kind = StructureKind_Parameter,
                 ps_name = Some ''options'',
                 ps_type = ''RequestOptions''\<rparr>])"
    using assms
    by (auto simp: generateHttpMethodParameters_def requestBodyTyped_def
          pathParameters_loop_append split: option.splits)
  show ?thesis
    unfolding Let_def
    by (simp add: params generateClientMethod_def)
qed

theorem C2_parameter_order_witness:
  "requestBodyTyped
     \<lparr>hm_name = ''update'',
      hm_path = [Literal [], Literal ''orgs'',
                 Parameter \<lparr>pp_parameterName = Some ''orgId'',
                            pp_parameterType = TypeObject ''string'' [] False []\<rparr>,
                 Literal ''users'',
                 Parameter \<lparr>pp_parameterName = Some ''id'',
                            pp_parameterType = TypeObject ''number'' [] False []\<rparr>],
      hm_method = Verb PUT,
      hm_requestBody = Some \<lparr>rb_name = ''payload'',
                              rb_type = Some (TypeObject ''UpdateUserDto'' [] False [])\<rparr>,
      hm_responseBody = None,
      hm_queryParameters = Some \<lparr>qp_name = ''query'',
                                  qp_type = TypeObject ''UpdateQuery'' [] False []\<rparr>\<rparr> \<and>
   generateHttpMethodParameters
     \<lparr>hm_name = ''update'',
      hm_path = [Literal [], Literal ''orgs'',
                 Parameter \<lparr>pp_parameterName = Some ''orgId'',
                            pp_parameterType = TypeObject ''string'' [] False []\<rparr>,
                 Literal ''users'',
                 Parameter \<lparr>pp_parameterName = Some ''id'',
                            pp_parameterType = TypeObject ''number'' [] False []\<rparr>],
      hm_method = Verb PUT,
      hm_requestBody = Some \<lparr>rb_name = ''payload'',
                              rb_type = Some (TypeObject ''UpdateUserDto'' [] False [])\<rparr>,
      hm_responseBody = None,
      hm_queryParameters = Some \<lparr>qp_name = ''query'',
                                  qp_type = TypeObject ''UpdateQuery'' [] False []\<rparr>\<rparr>
     [Literal [], Literal ''orgs'',
      Parameter \<lparr>pp_parameterName = Some ''orgId'',
                 pp_parameterType = TypeObject ''string'' [] False []\<rparr>,
      Literal ''users'',
      Parameter \<lparr>pp_parameterName = Some ''id'',
                 pp_parameterType = TypeObject ''number'' [] False []\<rparr>] =
   Inr [\<lparr>ps_kind = StructureKind_Parameter, ps_name = Some ''orgId'', ps_type = ''string''\<rparr>,
        \<lparr>ps_kind = StructureKind_Parameter, ps_name = Some ''id'', ps_type = ''number''\<rparr>,
        \<lparr>ps_kind = StructureKind_Parameter, ps_name = Some ''payload'',
         ps_type = ''UpdateUserDto''\<rparr>,
        \<lparr>ps_kind = StructureKind_Parameter, ps_name = Some ''query'',
         ps_type = ''UpdateQuery''\<rparr>,
        \<lparr>ps_kind = StructureKind_Parameter, ps_name = Some ''options'',
         ps_type = ''RequestOptions''\<rparr>]"
proof -
  let ?md = "\<lparr>hm_name = ''update'',
      hm_path = [Literal [], Literal ''orgs'',
                 Parameter \<lparr>pp_parameterName = Some ''orgId'',
                            pp_parameterType = TypeObject ''string'' [] False []\<rparr>,
                 Literal ''users'',
                 Parameter \<lparr>pp_parameterName = Some ''id'',
                            pp_parameterType = TypeObject ''number'' [] False []\<rparr>],
      hm_method = Verb PUT,
      hm_requestBody = Some \<lparr>rb_name = ''payload'',
                              rb_type = Some (TypeObject ''UpdateUserDto'' [] False [])\<rparr>,
      hm_responseBody = None,
      hm_queryParameters = Some \<lparr>qp_name = ''query'',
                                  qp_type = TypeObject ''UpdateQuery'' [] False []\<rparr>\<rparr>"
  have typed: "requestBodyTyped ?md"
    by (simp add: requestBodyTyped_def)
  from C2_parameter_order [OF typed] typed show ?thesis
    by (simp add: Let_def)
qed

section \<open>Path parameters and their bindings\<close>

text \<open>
  The name handed to \<open>extractPathParameterType\<close> is always \<open>undefined\<close>: the match array
  of a pattern without capture group has one element. No binding equals \<open>undefined\<close>, so
  every piece that has the form of a path parameter makes the extraction throw.
\<close>

lemma extractPathParameterType_loop_undefined:
  "\<exists>e. extractPathParameterType_loop methodName parameters None = Inl e"
  by (induction parameters)
     (auto simp: getPropertyOrThrow_def split: option.splits)

lemma pathParameter_exec_singleton:
  "pathParameter_exec p = Some parameterParser \<Longrightarrow> js_index parameterParser 1 = None"
  by (auto simp: pathParameter_exec_def js_index_def split: list.splits if_splits)

lemma parsePathSegment_parameter_throws:
  assumes "pathParameter_exec p \<noteq> None"
  shows "\<exists>e. parsePathSegment method p = Inl e"
proof -
  from assms obtain parameterParser where m: "pathParameter_exec p = Some parameterParser"
    by auto
  obtain e where "extractPathParameterType method None = Inl e"
    using extractPathParameterType_loop_undefined
    by (auto simp: extractPathParameterType_def)
  with m pathParameter_exec_singleton [OF m] show ?thesis
    by (simp add: parsePathSegment_def)
qed

text \<open>
  Claim C3, evaluated on the code. The route \<^verbatim>\<open>@Get('/:orgId') getOrg()\<close> under the base path
  \<^verbatim>\<open>/orgs\<close> has a path parameter \<open>orgId\<close> that no method parameter binds. The extraction
  of the route fails, and with it the run over the project; the error names the method, but
  where the claim has it identify the unbound parameter \<open>orgId\<close>, the message of the
  code reads \<open>undefined\<close>.
\<close>

theorem C3_unbound_parameter_error_names_undefined:
  "pathParameter_exec '':orgId'' = Some ['':orgId''] \<and>
   js_index ['':orgId''] 1 = None \<and>
   extractHttpFilesMetadata
     [\<lparr>sf_baseName = ''orgs.controller.ts'',
       sf_classes =
         [\<lparr>cls_name = Some ''OrgsController'',
           cls_decorators = [\<lparr>dec_name = ''Controller'',
                              dec_arguments = [singleQuoted ''/orgs''],
                              dec_type = TypeObject ''any'' [] False []\<rparr>],
           cls_methods =
             [\<lparr>met_name = ''getOrg'',
               met_decorators = [\<lparr>dec_name = ''Get'',
                                  dec_arguments = [singleQuoted ''/:orgId''],
                                  dec_type = TypeObject ''any'' [] False []\<rparr>],
               met_parameters = [],
               met_type = TypeObject ''() => Promise<Org>'' [] False [],
               met_returnType = TypeObject ''Promise<Org>'' [TypeObject ''Org'' [] False []]
                                  False []\<rparr>]\<rparr>]\<rparr>] =
   Inl (Error ''No parameter with name undefined found in method getOrg'') \<and>
   extractHttpMethodMetaData ''/orgs''
     \<lparr>met_name = ''getOrg'',
      met_decorators = [\<lparr>dec_name = ''Get'', dec_arguments = [singleQuoted ''/:orgId''],
                         dec_type = TypeObject ''any'' [] False []\<rparr>],
      met_parameters = [],
      met_type = TypeObject ''() => Promise<Org>'' [] False [],
      met_returnType = TypeObject ''Promise<Org>'' [TypeObject ''Org'' [] False []]
                         False []\<rparr> =
   Inl (Error ''No parameter with name undefined found in method getOrg'')"
  by (simp add: extractHttpFilesMetadata_def isControllerFile_def isControllerClass_def
        getDecorator_def extractHttpFileMetadata_def extractFileBaseName_def
        fileBaseName_exec_def suffix_to_prefix extractHttpClassMetaData_def
        extractHttpClassMetaDataFromClassDeclaration_def
        extractBasePathFromClassDeclaration_def
        extractHttpMethodMetaDataFromClassDeclaration_def isHttpMethod_def
        extractHttpMethodMetaData_def getHttpMethodDecorator_def js_in_def
        httpMethodByDecoratorName_def parsePath_def extractPathOfDecorator_def js_index_def
        stripQuotes_def singleQuoted_def parsePathSegment_def pathParameter_exec_def
        extractPathParameterType_def js_template_def)

text \<open>
  Claim C4, evaluated on the code. The route \<^verbatim>\<open>@Get('/:id') findOne(@Params() params)\<close>, with
  \<open>params\<close> of the structured type \<^verbatim>\<open>{ id: number; }\<close>, binds its path parameter through
  the group binding. Where the claim has the metadata record the type of the property
  \<open>id\<close>, number, the code looks the property \<open>undefined\<close> up and throws; it also reads the
  type of the decorator node, not that of the method parameter (here both are given the
  structured type).
\<close>

theorem C4_group_binding_throws:
  "extractHttpMethodMetaData ''/users''
     \<lparr>met_name = ''findOne'',
      met_decorators = [\<lparr>dec_name = ''Get'', dec_arguments = [singleQuoted ''/:id''],
                         dec_type = TypeObject ''any'' [] False []\<rparr>],
      met_parameters =
        [\<lparr>par_name = ''params'',
          par_decorators =
            [\<lparr>dec_name = ''Params'', dec_arguments = [],
              dec_type = TypeObject ''{ id: number; }'' [] False
                           [(''id'', TypeObject ''number'' [] False [])]\<rparr>],
          par_type = TypeObject ''{ id: number; }'' [] False
                       [(''id'', TypeObject ''number'' [] False [])]\<rparr>],
      met_type = TypeObject ''(params: { id: number; }) => Promise<User>'' [] False [],
      met_returnType = TypeObject ''Promise<User>'' [TypeObject ''User'' [] False []]
                         False []\<rparr> =
   Inl (TypeError ''find'')"
  by (simp add: extractHttpMethodMetaData_def getHttpMethodDecorator_def js_in_def
        httpMethodByDecoratorName_def parsePath_def extractPathOfDecorator_def js_index_def
        stripQuotes_def singleQuoted_def parsePathSegment_def pathParameter_exec_def
        extractPathParameterType_def getDecorator_def getPropertyOrThrow_def)

section \<open>The segments of an extracted path\<close>

text \<open>
  Where the extraction of a route succeeds, its path is the list of the pieces of the
  split, each as a literal, the empty piece before a leading slash included, and no piece
  has the form of a path parameter: a piece of that form makes the extraction throw.
\<close>

lemma parsePathSegment_Inr:
  assumes "parsePathSegment m piece = Inr segment"
  shows "segment = Literal piece \<and> pathParameter_exec piece = None"
proof (cases "pathParameter_exec piece")
  case None
  with assms show ?thesis
    by (simp add: parsePathSegment_def)
next
  case (Some parameterParser)
  then obtain e where "parsePathSegment m piece = Inl e"
    using parsePathSegment_parameter_throws [of piece m] by auto
  with assms show ?thesis
    by simp
qed

lemma mapE_Inr_map:
  "mapE f xs = Inr ys \<Longrightarrow> (\<And>x y. f x = Inr y \<Longrightarrow> y = g x \<and> P x) \<Longrightarrow>
     ys = map g xs \<and> list_all P xs"
proof (induction xs arbitrary: ys)
  case Nil
  then show ?case by simp
next
  case (Cons x xs)
  from Cons.prems(1) obtain y rest where
    y: "f x = Inr y" and rest: "mapE f xs = Inr rest" and ys: "ys = y # rest"
    by (auto split: sum.splits)
  from Cons.IH [OF rest Cons.prems(2)] Cons.prems(2) [OF y] ys show ?case
    by simp
qed

lemma extractHttpMethodMetaData_path:
  assumes "getHttpMethodDecorator method = Some decorator"
    and "extractHttpMethodMetaData basePath method = Inr route"
  shows "parsePath basePath decorator method = Inr (hm_path route)"
  using assms
  by (auto simp: extractHttpMethodMetaData_def split: sum.splits)

lemma extracted_path_literal_pieces:
  assumes "getHttpMethodDecorator method = Some decorator"
    and "extractHttpMethodMetaData basePath method = Inr route"
  shows "hm_path route =
           map Literal (js_split (CHR ''/'') (basePath @ extractPathOfDecorator decorator)) \<and>
         list_all (\<lambda>piece. pathParameter_exec piece = None)
           (js_split (CHR ''/'') (basePath @ extractPathOfDecorator decorator)) \<and>
         length (hm_path route) =
           Suc (count_list (basePath @ extractPathOfDecorator decorator) (CHR ''/''))"
proof -
  have "mapE (parsePathSegment method)
          (js_split (CHR ''/'') (basePath @ extractPathOfDecorator decorator)) =
        Inr (hm_path route)"
    using extractHttpMethodMetaData_path [OF assms] by (simp add: parsePath_def)
  from mapE_Inr_map [OF this, of Literal "\<lambda>piece. pathParameter_exec piece = None"]
  have "hm_path route =
          map Literal (js_split (CHR ''/'') (basePath @ extractPathOfDecorator decorator)) \<and>
        list_all (\<lambda>piece. pathParameter_exec piece = None)
          (js_split (CHR ''/'') (basePath @ extractPathOfDecorator decorator))"
    using parsePathSegment_Inr by blast
  then show ?thesis
    by (simp add: length_js_split)
qed

text \<open>
  Claim C7, evaluated on the code. The route
  \<^verbatim>\<open>@Get('/:orgId/users/:id') getUser(@Param('orgId') orgId: string, @Param('id') id: number)\<close>
  under the base path \<^verbatim>\<open>/orgs\<close> has the path \<^verbatim>\<open>/orgs/:orgId/users/:id\<close>, which splits on
  the slash into five pieces: the empty piece, \<open>orgs\<close>, \<^verbatim>\<open>:orgId\<close>, \<open>users\<close> and \<^verbatim>\<open>:id\<close>. The
  claim has the metadata hold five segments in that order, two of them \<open>Parameter\<close>
  segments. The code produces no metadata for the route: it throws at the first piece that
  has the form of a path parameter, though both parameters are bound.
\<close>

theorem C7_parameter_pieces_yield_no_segments:
  "js_split (CHR ''/'')
     (''/orgs'' @ extractPathOfDecorator
        \<lparr>dec_name = ''Get'', dec_arguments = [singleQuoted ''/:orgId/users/:id''],
         dec_type = TypeObject ''any'' [] False []\<rparr>) =
   [[], ''orgs'', '':orgId'', ''users'', '':id''] \<and>
   pathParameter_exec '':orgId'' = Some ['':orgId''] \<and>
   pathParameter_exec '':id'' = Some ['':id''] \<and>
   extractHttpMethodMetaData ''/orgs''
     \<lparr>met_name = ''getUser'',
      met_decorators = [\<lparr>dec_name = ''Get'',
                         dec_arguments = [singleQuoted ''/:orgId/users/:id''],
                         dec_type = TypeObject ''any'' [] False []\<rparr>],
      met_parameters =
        [\<lparr>par_name = ''orgId'',
          par_decorators = [\<lparr>dec_name = ''Param'', dec_arguments = [singleQuoted ''orgId''],
                             dec_type = TypeObject ''any'' [] False []\<rparr>],
          par_type = TypeObject ''string'' [] False []\<rparr>,
         \<lparr>par_name = ''id'',
          par_decorators = [\<lparr>dec_name = ''Param'', dec_arguments = [singleQuoted ''id''],
                             dec_type = TypeObject ''any'' [] False []\<rparr>],
          par_type = TypeObject ''number'' [] False []\<rparr>],
      met_type = TypeObject ''(orgId: string, id: number) => Promise<User>'' [] False [],
      met_returnType = TypeObject ''Promise<User>'' [TypeObject ''User'' [] False []]
                         False []\<rparr> =
   Inl (Error ''No parameter with name undefined found in method getUser'')"
  by (simp add: extractHttpMethodMetaData_def getHttpMethodDecorator_def js_in_def
        httpMethodByDecoratorName_def parsePath_def extractPathOfDecorator_def js_index_def
        stripQuotes_def singleQuoted_def parsePathSegment_def pathParameter_exec_def
        extractPathParameterType_def getDecorator_def js_template_def)

section \<open>File names\<close>

lemma fileBaseName_exec_no_suffix:
  "\<not> suffix ''.controller.ts'' s \<Longrightarrow> fileBaseName_exec s = None"
  by (simp add: fileBaseName_exec_def)

text \<open>
  Claim C10. A source file that qualifies for extraction (one of its classes carries the
  \<open>Controller\<close> decorator) and whose base name does not end in \<^verbatim>\<open>.controller.ts\<close> makes
  the extraction throw: the match of the file-name pattern is \<open>null\<close>, the read of its
  index 1 raises a \<open>TypeError\<close>, no file metadata is produced for it, and a run over any
  project that holds the file ends in an error.
\<close>

theorem C10_file_name_without_suffix_throws:
  assumes "isControllerFile sourceFile"
    and "\<not> suffix ''.controller.ts'' (sf_baseName sourceFile)"
  shows "extractHttpFileMetadata sourceFile = Inl (TypeError ''1'') \<and>
         (\<forall>nestProject. sourceFile \<in> set nestProject \<longrightarrow>
            (\<exists>e. extractHttpFilesMetadata nestProject = Inl e))"
proof -
  have one: "extractHttpFileMetadata sourceFile = Inl (TypeError ''1'')"
    using assms(2)
    by (simp add: extractHttpFileMetadata_def extractFileBaseName_def
          fileBaseName_exec_no_suffix)
  have "\<exists>e. extractHttpFilesMetadata nestProject = Inl e"
    if "sourceFile \<in> set nestProject" for nestProject
  proof -
    from that assms(1) have "sourceFile \<in> set (filter isControllerFile nestProject)"
      by simp
    from mapE_Inl_member [of sourceFile _ extractHttpFileMetadata, OF this one] show ?thesis
      by (simp add: extractHttpFilesMetadata_def)
  qed
  with one show ?thesis by blast
qed

theorem C10_file_name_without_suffix_throws_witness:
  "isControllerFile
     \<lparr>sf_baseName = ''users.ts'',
      sf_classes = [\<lparr>cls_name = Some ''UsersController'',
                     cls_decorators = [\<lparr>dec_name = ''Controller'',
                                        dec_arguments = [singleQuoted ''/users''],
                                        dec_type = TypeObject ''any'' [] False []\<rparr>],
                     cls_methods = []\<rparr>]\<rparr> \<and>
   \<not> suffix ''.controller.ts'' ''users.ts'' \<and>
   extractHttpFileMetadata
     \<lparr>sf_baseName = ''users.ts'',
      sf_classes = [\<lparr>cls_name = Some ''UsersController'',
                     cls_decorators = [\<lparr>dec_name = ''Controller'',
                                        dec_arguments = [singleQuoted ''/users''],
                                        dec_type = TypeObject ''any'' [] False []\<rparr>],
                     cls_methods = []\<rparr>]\<rparr> = Inl (TypeError ''1'') \<and>
   extractHttpFileMetadata
     \<lparr>sf_baseName = ''users.controller.ts'',
      sf_classes = [\<lparr>cls_name = Some ''UsersController'',
                     cls_decorators = [\<lparr>dec_name = ''Controller'',
                                        dec_arguments = [singleQuoted ''/users''],
                                        dec_type = TypeObject ''any'' [] False []\<rparr>],
                     cls_methods = []\<rparr>]\<rparr> =
   Inr \<lparr>hf_apiName = ''wip'', hf_fileBaseName = Some ''users'',
        hf_classes = [\<lparr>hc_baseName = ''Users'', hc_methods = []\<rparr>]\<rparr>"
proof -
  let ?c = "\<lparr>cls_name = Some ''UsersController'',
             cls_decorators = [\<lparr>dec_name = ''Controller'',
                                dec_arguments = [singleQuoted ''/users''],
                                dec_type = TypeObject ''any'' [] False []\<rparr>],
             cls_methods = []\<rparr>"
  let ?f = "\<lparr>sf_baseName = ''users.ts'', sf_classes = [?c]\<rparr>"
  have c: "isControllerClass ?c"
    by (simp add: isControllerClass_def getDecorator_def)
  have q: "isControllerFile ?f"
    by (simp add: isControllerFile_def c)
  have n: "\<not> suffix ''.controller.ts'' (sf_baseName ?f)"
    by (simp add: suffix_to_prefix)
  have ok: "extractHttpFileMetadata (?f\<lparr>sf_baseName := ''users.controller.ts''\<rparr>) =
     Inr \<lparr>hf_apiName = ''wip'', hf_fileBaseName = Some ''users'',
        hf_classes = [\<lparr>hc_baseName = ''Users'', hc_methods = []\<rparr>]\<rparr>"
    by (simp add: extractHttpFileMetadata_def extractFileBaseName_def fileBaseName_exec_def
          suffix_to_prefix js_index_def extractHttpClassMetaData_def c
          extractHttpClassMetaDataFromClassDeclaration_def
          extractBasePathFromClassDeclaration_def getDecorator_def
          extractHttpMethodMetaDataFromClassDeclaration_def stripControllerSuffix_def
          extractApiName_def)
  from C10_file_name_without_suffix_throws [OF q n] q n ok show ?thesis
    by simp
qed

section \<open>The type read for a method\<close>

text \<open>
  The extractor takes the response type from \<^verbatim>\<open>method.getType()\<close>. For a method node that
  is the type of the signature: its text does not start with \<^verbatim>\<open>Promise<\<close> and it is not
  void, so it is neither unwrapped nor suppressed, and the response body of every route is
  the signature type itself.
\<close>

lemma isSignatureType_not_Promise:
  "isSignatureType t \<Longrightarrow> \<not> isPromiseType t \<and> \<not> isVoid t"
  by (auto simp: isSignatureType_def isPromiseType_def split: list.splits)

lemma signature_type_is_response_body:
  "isSignatureType (met_type method) \<Longrightarrow>
     extractResponseBody method = Inr (Some \<lparr>resp_type = met_type method\<rparr>)"
  using isSignatureType_not_Promise [of "met_type method"]
  by (simp add: extractResponseBody_def)

text \<open>
  Claim C6, evaluated on the code. The route
  \<^verbatim>\<open>@Post() create(@Body() payload: CreateUserDto): Promise<void>\<close> under the base path
  \<^verbatim>\<open>/users\<close> has the return type \<^verbatim>\<open>Promise<void>\<close>, which is void after one level of
  unwrapping. The claim has its metadata hold no response body and the generated method
  return \<^verbatim>\<open>Promise<void>\<close>. The code reads the type of the method node, the signature
  \<^verbatim>\<open>(payload: CreateUserDto) => Promise<void>\<close>, in place of the return type: the metadata
  holds that type as the response body, and the generated return type is the wrapper
  around the printed type object.
\<close>

theorem C6_void_route_keeps_response_body:
  "spec_isAsyncWrapper (TypeObject ''Promise<void>'' [TypeObject ''void'' [] True []] False []) \<and>
   isVoid (TypeObject ''void'' [] True []) \<and>
   isSignatureType (TypeObject ''(payload: CreateUserDto) => Promise<void>'' [] False []) \<and>
   extractHttpMethodMetaData ''/users''
     \<lparr>met_name = ''create'',
      met_decorators = [\<lparr>dec_name = ''Post'', dec_arguments = [],
                         dec_type = TypeObject ''any'' [] False []\<rparr>],
      met_parameters = [\<lparr>par_name = ''payload'',
                         par_decorators = [\<lparr>dec_name = ''Body'', dec_arguments = [],
                                            dec_type = TypeObject ''any'' [] False []\<rparr>],
                         par_type = TypeObject ''CreateUserDto'' [] False []\<rparr>],
      met_type = TypeObject ''(payload: CreateUserDto) => Promise<void>'' [] False [],
      met_returnType = TypeObject ''Promise<void>'' [TypeObject ''void'' [] True []]
                         False []\<rparr> =
   Inr \<lparr>hm_name = ''create'',
        hm_path = [Literal [], Literal ''users''],
        hm_method = Verb POST,
        hm_requestBody = Some \<lparr>rb_name = ''payload'',
                                rb_type = Some (TypeObject ''CreateUserDto'' [] False [])\<rparr>,
        hm_responseBody =
          Some \<lparr>resp_type =
                  TypeObject ''(payload: CreateUserDto) => Promise<void>'' [] False []\<rparr>,
        hm_queryParameters = None\<rparr> \<and>
   map_sum id ms_returnType
     (generateClientMethod
        \<lparr>hm_name = ''create'',
         hm_path = [Literal [], Literal ''users''],
         hm_method = Verb POST,
         hm_requestBody = Some \<lparr>rb_name = ''payload'',
                                 rb_type = Some (TypeObject ''CreateUserDto'' [] False [])\<rparr>,
         hm_responseBody =
           Some \<lparr>resp_type =
                   TypeObject ''(payload: CreateUserDto) => Promise<void>'' [] False []\<rparr>,
         hm_queryParameters = None\<rparr>) =
   Inr ''Promise<[object Object]>''"
  by (simp add: spec_isAsyncWrapper_def isSignatureType_def extractHttpMethodMetaData_def
        getHttpMethodDecorator_def js_in_def httpMethodByDecoratorName_def parsePath_def
        extractPathOfDecorator_def js_index_def parsePathSegment_def pathParameter_exec_def
        extractResponseBody_def isPromiseType_def extractRequestBody_def getDecorator_def
        extractQueryParametersType_def js_get_def generateClientMethod_def
        generateHttpMethodParameters_def Type_toString_def)

section \<open>The scenario of the users controller\<close>



section \<open>Decorators outside the vocabulary\<close>

text \<open>A method is a route exactly when one of its decorators has a name of the table or a
  name inherited from \<open>Object.prototype\<close>; decorators of any other name leave it no route.\<close>

lemma isHttpMethod_iff:
  "isHttpMethod method \<longleftrightarrow>
     (\<exists>d \<in> set (met_decorators method).
        dec_name d \<in> set [''Get'', ''Post'', ''Put'', ''Delete'', ''Patch''] \<or>
        dec_name d \<in> set ObjectPrototype_names)"
  by (auto simp: isHttpMethod_def getHttpMethodDecorator_def find_None_iff js_in_def
        httpMethodByDecoratorName_def)

text \<open>
  Claim C8, evaluated on the code. The method \<open>describe\<close> carries one decorator, named
  \<open>toString\<close>, which is not in the vocabulary. The test
  \<^verbatim>\<open>d.getName() in this.httpMethodByDecoratorName\<close> follows the prototype chain of the
  table, so the method counts as a route and is extracted, its verb being the inherited
  member; the claim has such a method not treated as a route.
\<close>

theorem C8_inherited_name_is_a_route:
  "''toString'' \<notin> set [''Controller'', ''Get'', ''Post'', ''Put'', ''Delete'', ''Patch'',
                         ''Param'', ''Params'', ''Body'', ''QueryParams''] \<and>
   isHttpMethod
     \<lparr>met_name = ''describe'',
      met_decorators = [\<lparr>dec_name = ''toString'', dec_arguments = [],
                         dec_type = TypeObject ''any'' [] False []\<rparr>],
      met_parameters = [],
      met_type = TypeObject ''() => string'' [] False [],
      met_returnType = TypeObject ''string'' [] False []\<rparr> \<and>
   extractHttpMethodMetaDataFromClassDeclaration ''/users''
     \<lparr>cls_name = Some ''UsersController'',
      cls_decorators = [\<lparr>dec_name = ''Controller'', dec_arguments = [singleQuoted ''/users''],
                         dec_type = TypeObject ''any'' [] False []\<rparr>],
      cls_methods =
        [\<lparr>met_name = ''describe'',
          met_decorators = [\<lparr>dec_name = ''toString'', dec_arguments = [],
                             dec_type = TypeObject ''any'' [] False []\<rparr>],
          met_parameters = [],
          met_type = TypeObject ''() => string'' [] False [],
          met_returnType = TypeObject ''string'' [] False []\<rparr>]\<rparr> =
   Inr [\<lparr>hm_name = ''describe'',
         hm_path = [Literal [], Literal ''users''],
         hm_method = ObjectPrototypeMember ''toString'',
         hm_requestBody = None,
         hm_responseBody = Some \<lparr>resp_type = TypeObject ''() => string'' [] False []\<rparr>,
         hm_queryParameters = None\<rparr>]"
  by (simp add: isHttpMethod_def getHttpMethodDecorator_def js_in_def
        httpMethodByDecoratorName_def ObjectPrototype_names_def
        extractHttpMethodMetaDataFromClassDeclaration_def extractHttpMethodMetaData_def
        parsePath_def extractPathOfDecorator_def js_index_def parsePathSegment_def
        pathParameter_exec_def extractResponseBody_def isPromiseType_def
        extractRequestBody_def extractQueryParametersType_def js_get_def)

section \<open>Unwrapping asynchronous results\<close>

text \<open>
  Claim C5, as stated, fails on the code. The type \<^verbatim>\<open>Promise<User>[]\<close> is an array, not an
  asynchronous-result wrapper; its text starts with \<^verbatim>\<open>Promise<\<close> and its one type argument
  is the element type \<^verbatim>\<open>Promise<User>\<close>. As the type of a body-bound parameter it is not
  left unchanged: the element type is recorded in its place.
\<close>

theorem C5_array_of_promises_counterexample:
  "\<not> spec_isAsyncWrapper
       (TypeObject ''Promise<User>[]''
          [TypeObject ''Promise<User>'' [TypeObject ''User'' [] False []] False []]
          False []) \<and>
   extractRequestBody
     \<lparr>met_name = ''saveAll'', met_decorators = [],
      met_parameters =
        [\<lparr>par_name = ''pending'',
          par_decorators = [\<lparr>dec_name = ''Body'', dec_arguments = [],
                             dec_type = TypeObject ''any'' [] False []\<rparr>],
          par_type = TypeObject ''Promise<User>[]''
                       [TypeObject ''Promise<User>'' [TypeObject ''User'' [] False []]
                          False []]
                       False []\<rparr>],
      met_type = TypeObject ''(pending: Promise<User>[]) => void'' [] False [],
      met_returnType = TypeObject ''void'' [] True []\<rparr> =
   Some \<lparr>rb_name = ''pending'',
         rb_type = Some (TypeObject ''Promise<User>''
                           [TypeObject ''User'' [] False []] False [])\<rparr> \<and>
   extractRequestBody
     \<lparr>met_name = ''saveAll'', met_decorators = [],
      met_parameters =
        [\<lparr>par_name = ''pending'',
          par_decorators = [\<lparr>dec_name = ''Body'', dec_arguments = [],
                             dec_type = TypeObject ''any'' [] False []\<rparr>],
          par_type = TypeObject ''Promise<User>[]''
                       [TypeObject ''Promise<User>'' [TypeObject ''User'' [] False []]
                          False []]
                       False []\<rparr>],
      met_type = TypeObject ''(pending: Promise<User>[]) => void'' [] False [],
      met_returnType = TypeObject ''void'' [] True []\<rparr> \<noteq>
   Some \<lparr>rb_name = ''pending'',
         rb_type = Some (TypeObject ''Promise<User>[]''
                           [TypeObject ''Promise<User>'' [TypeObject ''User'' [] False []]
                              False []]
                           False [])\<rparr>"
  by (simp add: spec_isAsyncWrapper_def isPromiseType_def js_index_def
        extractRequestBody_def getDecorator_def)

text \<open>
  Claim C5, amended. For every body-bound parameter type: when the text of the type does
  not start with \<^verbatim>\<open>Promise<\<close>, the type is recorded unchanged; when it does, the first of its
  type arguments is recorded in its place (\<open>undefined\<close> when it has none), and nothing
  further is unwrapped. An asynchronous-result wrapper has such a text and the carried type
  as its one type argument, so for a wrapper the carried type is recorded: exactly one
  layer is removed.
\<close>

theorem C5_body_type_unwrap_by_text_prefix:
  "(find (\<lambda>p. getDecorator ''Body'' (par_decorators p) \<noteq> None) (met_parameters method) =
      Some bodyParameter \<and>
    \<not> prefix ''Promise<'' (getText (par_type bodyParameter)) \<longrightarrow>
      extractRequestBody method =
        Some \<lparr>rb_name = par_name bodyParameter,
              rb_type = Some (par_type bodyParameter)\<rparr>) \<and>
   (find (\<lambda>p. getDecorator ''Body'' (par_decorators p) \<noteq> None) (met_parameters method) =
      Some bodyParameter \<and>
    prefix ''Promise<'' (getText (par_type bodyParameter)) \<longrightarrow>
      extractRequestBody method =
        Some \<lparr>rb_name = par_name bodyParameter,
              rb_type = (case getTypeArguments (par_type bodyParameter) of
                           [] \<Rightarrow> None
                         | first # others \<Rightarrow> Some first)\<rparr>) \<and>
   (find (\<lambda>p. getDecorator ''Body'' (par_decorators p) \<noteq> None) (met_parameters method) =
      Some bodyParameter \<and>
    spec_isAsyncWrapper (par_type bodyParameter) \<longrightarrow>
      (\<exists>carried.
         getTypeArguments (par_type bodyParameter) = [carried] \<and>
         getText (par_type bodyParameter) = ''Promise<'' @ getText carried @ ''>'' \<and>
         extractRequestBody method =
           Some \<lparr>rb_name = par_name bodyParameter, rb_type = Some carried\<rparr>))"
proof (intro conjI impI)
  assume "find (\<lambda>p. getDecorator ''Body'' (par_decorators p) \<noteq> None) (met_parameters method) =
      Some bodyParameter \<and>
    \<not> prefix ''Promise<'' (getText (par_type bodyParameter))"
  then show "extractRequestBody method =
        Some \<lparr>rb_name = par_name bodyParameter,
              rb_type = Some (par_type bodyParameter)\<rparr>"
    by (simp add: extractRequestBody_def isPromiseType_def)
next
  assume "find (\<lambda>p. getDecorator ''Body'' (par_decorators p) \<noteq> None) (met_parameters method) =
      Some bodyParameter \<and>
    prefix ''Promise<'' (getText (par_type bodyParameter))"
  then show "extractRequestBody method =
        Some \<lparr>rb_name = par_name bodyParameter,
              rb_type = (case getTypeArguments (par_type bodyParameter) of
                           [] \<Rightarrow> None
                         | first # others \<Rightarrow> Some first)\<rparr>"
    by (simp add: extractRequestBody_def isPromiseType_def js_index_def split: list.splits)
next
  assume a: "find (\<lambda>p. getDecorator ''Body'' (par_decorators p) \<noteq> None)
               (met_parameters method) = Some bodyParameter \<and>
             spec_isAsyncWrapper (par_type bodyParameter)"
  then obtain carried where
    c: "getTypeArguments (par_type bodyParameter) = [carried]" and
    t: "getText (par_type bodyParameter) = ''Promise<'' @ getText carried @ ''>''"
    by (auto simp: spec_isAsyncWrapper_def split: list.splits)
  from a c t have "extractRequestBody method =
      Some \<lparr>rb_name = par_name bodyParameter, rb_type = Some carried\<rparr>"
    by (simp add: extractRequestBody_def isPromiseType_def js_index_def)
  with c t show "\<exists>carried.
         getTypeArguments (par_type bodyParameter) = [carried] \<and>
         getText (par_type bodyParameter) = ''Promise<'' @ getText carried @ ''>'' \<and>
         extractRequestBody method =
           Some \<lparr>rb_name = par_name bodyParameter, rb_type = Some carried\<rparr>"
    by blast
qed

theorem C5_body_type_unwrap_by_text_prefix_witness:
  "extractRequestBody
     \<lparr>met_name = ''replace'', met_decorators = [],
      met_parameters =
        [\<lparr>par_name = ''id'', par_decorators = [],
          par_type = TypeObject ''number'' [] False []\<rparr>,
         \<lparr>par_name = ''payload'',
          par_decorators = [\<lparr>dec_name = ''Body'', dec_arguments = [],
                             dec_type = TypeObject ''any'' [] False []\<rparr>],
          par_type = TypeObject ''CreateUserDto'' [] False []\<rparr>],
      met_type = TypeObject ''(id: number, payload: CreateUserDto) => void'' [] False [],
      met_returnType = TypeObject ''void'' [] True []\<rparr> =
   Some \<lparr>rb_name = ''payload'',
         rb_type = Some (TypeObject ''CreateUserDto'' [] False [])\<rparr> \<and>
   extractRequestBody
     \<lparr>met_name = ''either'', met_decorators = [],
      met_parameters =
        [\<lparr>par_name = ''payload'',
          par_decorators = [\<lparr>dec_name = ''Body'', dec_arguments = [],
                             dec_type = TypeObject ''any'' [] False []\<rparr>],
          par_type = TypeObject ''Promise<Cat> | Promise<Dog>'' [] False []\<rparr>],
      met_type = TypeObject ''(payload: Promise<Cat> | Promise<Dog>) => void'' [] False [],
      met_returnType = TypeObject ''void'' [] True []\<rparr> =
   Some \<lparr>rb_name = ''payload'', rb_type = None\<rparr> \<and>
   spec_isAsyncWrapper
     (TypeObject ''Promise<Promise<User>>''
        [TypeObject ''Promise<User>'' [TypeObject ''User'' [] False []] False []] False []) \<and>
   extractRequestBody
     \<lparr>met_name = ''later'', met_decorators = [],
      met_parameters =
        [\<lparr>par_name = ''payload'',
          par_decorators = [\<lparr>dec_name = ''Body'', dec_arguments = [],
                             dec_type = TypeObject ''any'' [] False []\<rparr>],
          par_type = TypeObject ''Promise<Promise<User>>''
                       [TypeObject ''Promise<User>'' [TypeObject ''User'' [] False []]
                          False []]
                       False []\<rparr>],
      met_type = TypeObject ''(payload: Promise<Promise<User>>) => void'' [] False [],
      met_returnType = TypeObject ''void'' [] True []\<rparr> =
   Some \<lparr>rb_name = ''payload'',
         rb_type = Some (TypeObject ''Promise<User>''
                           [TypeObject ''User'' [] False []] False [])\<rparr>"
proof -
  let ?void = "TypeObject ''void'' [] True []"
  let ?user = "TypeObject ''User'' [] False []"
  let ?dto = "TypeObject ''CreateUserDto'' [] False []"
  let ?promiseUser = "TypeObject ''Promise<User>'' [?user] False []"
  let ?nested = "TypeObject ''Promise<Promise<User>>'' [?promiseUser] False []"
  let ?union = "TypeObject ''Promise<Cat> | Promise<Dog>'' [] False []"
  let ?body = "\<lparr>dec_name = ''Body'', dec_arguments = [],
                dec_type = TypeObject ''any'' [] False []\<rparr>"
  let ?plain = "\<lparr>par_name = ''payload'', par_decorators = [?body], par_type = ?dto\<rparr>"
  let ?united = "\<lparr>par_name = ''payload'', par_decorators = [?body], par_type = ?union\<rparr>"
  let ?wrapped = "\<lparr>par_name = ''payload'', par_decorators = [?body], par_type = ?nested\<rparr>"
  let ?replace = "\<lparr>met_name = ''replace'', met_decorators = [],
                   met_parameters = [\<lparr>par_name = ''id'', par_decorators = [],
                                      par_type = TypeObject ''number'' [] False []\<rparr>,
                                     ?plain],
                   met_type = TypeObject ''(id: number, payload: CreateUserDto) => void''
                                [] False [],
                   met_returnType = ?void\<rparr>"
  let ?either = "\<lparr>met_name = ''either'', met_decorators = [],
                  met_parameters = [?united],
                  met_type = TypeObject ''(payload: Promise<Cat> | Promise<Dog>) => void''
                               [] False [],
                  met_returnType = ?void\<rparr>"
  let ?later = "\<lparr>met_name = ''later'', met_decorators = [],
                 met_parameters = [?wrapped],
                 met_type = TypeObject ''(payload: Promise<Promise<User>>) => void''
                              [] False [],
                 met_returnType = ?void\<rparr>"
  have wrapper: "spec_isAsyncWrapper ?nested"
    by (simp add: spec_isAsyncWrapper_def)
  have replaceBody:
    "find (\<lambda>p. getDecorator ''Body'' (par_decorators p) \<noteq> None) (met_parameters ?replace) =
       Some ?plain \<and>
     \<not> prefix ''Promise<'' (getText (par_type ?plain))"
    by (simp add: getDecorator_def)
  have eitherBody:
    "find (\<lambda>p. getDecorator ''Body'' (par_decorators p) \<noteq> None) (met_parameters ?either) =
       Some ?united \<and>
     prefix ''Promise<'' (getText (par_type ?united))"
    by (simp add: getDecorator_def)
  have laterBody:
    "find (\<lambda>p. getDecorator ''Body'' (par_decorators p) \<noteq> None) (met_parameters ?later) =
       Some ?wrapped \<and>
     spec_isAsyncWrapper (par_type ?wrapped)"
    using wrapper by (simp add: getDecorator_def)
  note one = C5_body_type_unwrap_by_text_prefix [of ?replace ?plain]
  note two = C5_body_type_unwrap_by_text_prefix [of ?either ?united]
  note three = C5_body_type_unwrap_by_text_prefix [of ?later ?wrapped]
  from one replaceBody have r1:
    "extractRequestBody ?replace = Some \<lparr>rb_name = ''payload'', rb_type = Some ?dto\<rparr>"
    by simp
  from two eitherBody have r2:
    "extractRequestBody ?either = Some \<lparr>rb_name = ''payload'', rb_type = None\<rparr>"
    by simp
  from three laterBody have r3:
    "extractRequestBody ?later = Some \<lparr>rb_name = ''payload'', rb_type = Some ?promiseUser\<rparr>"
    by auto
  from r1 r2 r3 wrapper show ?thesis
    by blast
qed

section \<open>The path argument of a decorator\<close>

text \<open>
  Claim C9, as stated, fails on the code. The argument of \<^verbatim>\<open>@Get(ROUTE)\<close> is an identifier,
  not a string literal. It does not contribute the empty string: its source text \<open>ROUTE\<close>
  becomes part of the route path.
\<close>

theorem C9_identifier_argument_counterexample:
  "\<not> spec_stringLiteralText ''ROUTE'' \<and>
   extractPathOfDecorator
     \<lparr>dec_name = ''Get'', dec_arguments = [''ROUTE''],
      dec_type = TypeObject ''any'' [] False []\<rparr> = ''ROUTE'' \<and>
   extractPathOfDecorator
     \<lparr>dec_name = ''Get'', dec_arguments = [''ROUTE''],
      dec_type = TypeObject ''any'' [] False []\<rparr> \<noteq> [] \<and>
   extractHttpMethodMetaData ''/users/''
     \<lparr>met_name = ''list'',
      met_decorators = [\<lparr>dec_name = ''Get'', dec_arguments = [''ROUTE''],
                         dec_type = TypeObject ''any'' [] False []\<rparr>],
      met_parameters = [],
      met_type = TypeObject ''() => void'' [] False [],
      met_returnType = TypeObject ''void'' [] True []\<rparr> =
   Inr \<lparr>hm_name = ''list'',
        hm_path = [Literal [], Literal ''users'', Literal ''ROUTE''],
        hm_method = Verb GET,
        hm_requestBody = None,
        hm_responseBody = Some \<lparr>resp_type = TypeObject ''() => void'' [] False []\<rparr>,
        hm_queryParameters = None\<rparr>"
  by (simp add: spec_stringLiteralText_def extractPathOfDecorator_def js_index_def
        stripQuotes_def extractHttpMethodMetaData_def getHttpMethodDecorator_def js_in_def
        httpMethodByDecoratorName_def parsePath_def parsePathSegment_def
        pathParameter_exec_def extractResponseBody_def isPromiseType_def
        extractRequestBody_def extractQueryParametersType_def js_get_def)

lemma stripQuotes_singleQuoted:
  "CHR 0x27 \<notin> set s \<Longrightarrow> stripQuotes (singleQuoted s) = s"
  by (auto simp: stripQuotes_def singleQuoted_def filter_id_conv)

text \<open>
  Claim C9, amended. Reading the path of a controller-role or verb-role annotation raises no
  error. An annotation without a first argument contributes the empty string; one with a
  first argument contributes the source text of that argument with every single quote
  removed, which is the content of a single-quoted string literal and the unchanged text
  of any expression that holds no single quote. The base path of a class is the
  contribution of its \<open>Controller\<close> decorator.
\<close>

theorem C9_argument_text_contributed:
  "(dec_arguments decorator = [] \<longrightarrow> extractPathOfDecorator decorator = []) \<and>
   (dec_arguments decorator = firstArgument # others \<longrightarrow>
      extractPathOfDecorator decorator = filter (\<lambda>c. c \<noteq> CHR 0x27) firstArgument) \<and>
   (dec_arguments decorator = singleQuoted content # others \<and> CHR 0x27 \<notin> set content \<longrightarrow>
      extractPathOfDecorator decorator = content) \<and>
   (getDecorator ''Controller'' (cls_decorators classDeclaration) = Some decorator \<longrightarrow>
      extractBasePathFromClassDeclaration classDeclaration =
        Inr (extractPathOfDecorator decorator))"
proof (intro conjI impI)
  assume "dec_arguments decorator = []"
  then show "extractPathOfDecorator decorator = []"
    by (simp add: extractPathOfDecorator_def js_index_def)
next
  assume "dec_arguments decorator = firstArgument # others"
  then show "extractPathOfDecorator decorator = filter (\<lambda>c. c \<noteq> CHR 0x27) firstArgument"
    by (simp add: extractPathOfDecorator_def js_index_def stripQuotes_def)
next
  assume "dec_arguments decorator = singleQuoted content # others \<and> CHR 0x27 \<notin> set content"
  then show "extractPathOfDecorator decorator = content"
    by (simp add: extractPathOfDecorator_def js_index_def stripQuotes_singleQuoted)
next
  assume "getDecorator ''Controller'' (cls_decorators classDeclaration) = Some decorator"
  then show "extractBasePathFromClassDeclaration classDeclaration =
        Inr (extractPathOfDecorator decorator)"
    by (simp add: extractBasePathFromClassDeclaration_def)
qed

theorem C9_argument_text_contributed_witness:
  "extractPathOfDecorator
     \<lparr>dec_name = ''Get'', dec_arguments = [], dec_type = TypeObject ''any'' [] False []\<rparr> =
   [] \<and>
   extractPathOfDecorator
     \<lparr>dec_name = ''Get'', dec_arguments = [''`/list`''],
      dec_type = TypeObject ''any'' [] False []\<rparr> = ''`/list`'' \<and>
   extractPathOfDecorator
     \<lparr>dec_name = ''Controller'', dec_arguments = [singleQuoted ''/users''],
      dec_type = TypeObject ''any'' [] False []\<rparr> = ''/users'' \<and>
   extractBasePathFromClassDeclaration
     \<lparr>cls_name = Some ''UsersController'',
      cls_decorators = [\<lparr>dec_name = ''Controller'',
                         dec_arguments = [singleQuoted ''/users''],
                         dec_type = TypeObject ''any'' [] False []\<rparr>],
      cls_methods = []\<rparr> = Inr ''/users''"
proof -
  let ?bare = "\<lparr>dec_name = ''Get'', dec_arguments = [],
                dec_type = TypeObject ''any'' [] False []\<rparr>"
  let ?template = "\<lparr>dec_name = ''Get'', dec_arguments = [''`/list`''],
                    dec_type = TypeObject ''any'' [] False []\<rparr>"
  let ?controller = "\<lparr>dec_name = ''Controller'', dec_arguments = [singleQuoted ''/users''],
                      dec_type = TypeObject ''any'' [] False []\<rparr>"
  let ?users = "\<lparr>cls_name = Some ''UsersController'', cls_decorators = [?controller],
                 cls_methods = []\<rparr>"
  have none: "dec_arguments ?bare = []"
    by simp
  have some: "dec_arguments ?template = ''`/list`'' # []"
    by simp
  have quoted: "dec_arguments ?controller = singleQuoted ''/users'' # [] \<and>
                CHR 0x27 \<notin> set ''/users''"
    by simp
  have found: "getDecorator ''Controller'' (cls_decorators ?users) = Some ?controller"
    by (simp add: getDecorator_def)
  from C9_argument_text_contributed [where decorator = ?bare] none
  have r1: "extractPathOfDecorator ?bare = []"
    by blast
  from C9_argument_text_contributed
         [where decorator = ?template and firstArgument = "''`/list`''" and others = "[]"] some
  have r2: "extractPathOfDecorator ?template = ''`/list`''"
    by simp
  from C9_argument_text_contributed
         [where decorator = ?controller and content = "''/users''" and others = "[]"
            and classDeclaration = ?users] quoted found
  have r3: "extractPathOfDecorator ?controller = ''/users'' \<and>
            extractBasePathFromClassDeclaration ?users = Inr ''/users''"
    by simp
  from r1 r2 r3 show ?thesis
    by blast
qed

end
